theory Spec2Isabelle
  imports Complex_Main
begin

section \<open>The molecule parser: from .xyz text to a ray-tracer scene\<close>

text \<open>
  A shallow embedding of \<^verbatim>\<open>mol_parse.py\<close>. The conventions of the model:
  \<^item> a Python \<^verbatim>\<open>float\<close> is a \<^typ>\<open>real\<close>: arithmetic is exact, and rounding,
    infinities and NaN are outside the model, but for the norm that \<^verbatim>\<open>normalize\<close>
    tests, which is a parameter there;
  \<^item> a numpy array of three floats is a triple of reals;
  \<^item> a Python \<^verbatim>\<open>str\<close> is a \<^typ>\<open>string\<close>, each character read as a code point
    below 256;
  \<^item> an exception is a value of the type \<open>error\<close>, and a function that can raise
    returns \<open>error + 'a\<close> with \<open>Inl\<close> for the exception;
  \<^item> the two built-ins that turn text into floats and floats into text are
    parameters of the functions that call them: \<open>float_of\<close> stands for
    \<^verbatim>\<open>float(s)\<close> (\<open>None\<close> when it raises ValueError) and \<open>fmt p x\<close> for the format
    \<^verbatim>\<open>f"{x:.pf}"\<close>.
\<close>

subsection \<open>Errors and loops\<close>

datatype error =
    CouldNotConvert string  \<comment> \<open>ValueError of \<^verbatim>\<open>float(s)\<close>, with the offending text\<close>
  | UnpackError             \<comment> \<open>ValueError of \<^verbatim>\<open>x, y, z = ...\<close> on a wrong count\<close>
  | IndexError              \<comment> \<open>a list read out of range\<close>
  | DivisionByZero          \<comment> \<open>a division by a zero float\<close>

text \<open>A \<^verbatim>\<open>for x in xs: body\<close> whose body can raise: the first exception ends the loop.\<close>

fun for_each :: "('a \<Rightarrow> 's \<Rightarrow> error + 's) \<Rightarrow> 'a list \<Rightarrow> 's \<Rightarrow> error + 's" where
  "for_each body [] s = Inr s"
| "for_each body (x # xs) s =
     (case body x s of Inl e \<Rightarrow> Inl e | Inr s' \<Rightarrow> for_each body xs s')"

text \<open>\<^verbatim>\<open>xs[i]\<close> for a non-negative index.\<close>

definition item :: "'a list \<Rightarrow> nat \<Rightarrow> error + 'a" where
  "item xs i = (if i < length xs then Inr (xs ! i) else Inl IndexError)"

subsection \<open>Text: whitespace, \<^verbatim>\<open>strip\<close>, \<^verbatim>\<open>split\<close>, \<^verbatim>\<open>join\<close>, \<^verbatim>\<open>str\<close>\<close>

definition newline :: char where
  "newline = CHR 0x0A"

text \<open>\<^verbatim>\<open>str.isspace\<close> on one character, for the code points below 256.\<close>

definition isspace :: "char \<Rightarrow> bool" where
  "isspace c =
     (let n = (of_char c :: nat)
      in (9 \<le> n \<and> n \<le> 13) \<or> (28 \<le> n \<and> n \<le> 32) \<or> n = 133 \<or> n = 160)"

text \<open>\<^verbatim>\<open>s.strip()\<close>: whitespace removed at both ends.\<close>

definition strip :: "string \<Rightarrow> string" where
  "strip s = rev (dropWhile isspace (rev (dropWhile isspace s)))"

text \<open>
  \<^verbatim>\<open>s.split('\n')\<close>: the pieces between the newlines, empty ones kept; \<open>cur\<close> is the
  piece being read.
\<close>

fun split_on :: "char \<Rightarrow> string \<Rightarrow> string \<Rightarrow> string list" where
  "split_on sep cur [] = [cur]"
| "split_on sep cur (c # cs) =
     (if c = sep then cur # split_on sep [] cs else split_on sep (cur @ [c]) cs)"

definition split_lines :: "string \<Rightarrow> string list" where
  "split_lines s = split_on newline [] s"

text \<open>
  \<^verbatim>\<open>s.split()\<close>: the maximal runs of non-whitespace characters; \<open>cur\<close> is the token
  being read.
\<close>

fun split_ws :: "string \<Rightarrow> string \<Rightarrow> string list" where
  "split_ws cur [] = (if cur = [] then [] else [cur])"
| "split_ws cur (c # cs) =
     (if isspace c then (if cur = [] then split_ws [] cs else cur # split_ws [] cs)
      else split_ws (cur @ [c]) cs)"

definition split :: "string \<Rightarrow> string list" where
  "split s = split_ws [] s"

text \<open>\<^verbatim>\<open>"\n".join(content)\<close>.\<close>

fun join_lines :: "string list \<Rightarrow> string" where
  "join_lines [] = []"
| "join_lines [l] = l"
| "join_lines (l # ls) = l @ newline # join_lines ls"

text \<open>\<^verbatim>\<open>str(n)\<close> for a natural number, as the format \<^verbatim>\<open>f"{r}"\<close> prints a colour channel.\<close>

definition digit_char :: "nat \<Rightarrow> char" where
  "digit_char d = ''0123456789'' ! d"

function str_nat :: "nat \<Rightarrow> string" where
  "str_nat n = (if n < 10 then [digit_char n] else str_nat (n div 10) @ [digit_char (n mod 10)])"
  by pat_completeness auto
termination
  by (relation "measure id") auto

declare str_nat.simps [simp del]

subsection \<open>Vectors\<close>

type_synonym vec3 = "real \<times> real \<times> real"

fun vadd :: "vec3 \<Rightarrow> vec3 \<Rightarrow> vec3" where
  "vadd (x1, y1, z1) (x2, y2, z2) = (x1 + x2, y1 + y2, z1 + z2)"

fun vsub :: "vec3 \<Rightarrow> vec3 \<Rightarrow> vec3" where
  "vsub (x1, y1, z1) (x2, y2, z2) = (x1 - x2, y1 - y2, z1 - z2)"

text \<open>
  \<^verbatim>\<open>vector / k\<close>. The reals have no infinity and no NaN to hold the quotient by
  zero, so dividing by zero is an outcome of its own.
\<close>

fun vdiv :: "vec3 \<Rightarrow> real \<Rightarrow> error + vec3" where
  "vdiv (x, y, z) k = (if k = 0 then Inl DivisionByZero else Inr (x / k, y / k, z / k))"

text \<open>
  \<^verbatim>\<open>np.linalg.norm(v)\<close> as the exact 2-norm. The library computes it in float64, where
  the square of a tiny coordinate underflows to zero; the distances of the scene are
  read with the exact norm, and \<^verbatim>\<open>normalize\<close>, whose test on the norm is the point of
  its contract, takes the norm as a parameter.
\<close>

fun linalg_norm :: "vec3 \<Rightarrow> real" where
  "linalg_norm (x, y, z) = sqrt (x * x + y * y + z * z)"

definition calculate_distance :: "vec3 \<Rightarrow> vec3 \<Rightarrow> real" where
  "calculate_distance point1 point2 = linalg_norm (vsub point2 point1)"

text \<open>
  \<^verbatim>\<open>normalize\<close> of the source, with the library function \<^verbatim>\<open>np.linalg.norm\<close> as the
  parameter \<open>norm_of\<close>; the plain name is a constant of HOL.
\<close>

definition normalize_with :: "(vec3 \<Rightarrow> real) \<Rightarrow> vec3 \<Rightarrow> error + vec3" where
  "normalize_with norm_of vector =
     (let norm = norm_of vector
      in if norm = 0 then Inr vector else vdiv vector norm)"

text \<open>\<^verbatim>\<open>normalize\<close> with the exact norm, as the scene uses it.\<close>

definition normalize_vector :: "vec3 \<Rightarrow> error + vec3" where
  "normalize_vector vector = normalize_with linalg_norm vector"

text \<open>
  The norm on tiny vectors as float64 computes it. A square below \<open>1 / 2 ^ 1075\<close>, half the
  least positive double, is rounded to zero, so when the three squares add up to less
  than that, each of them is zero and so are their sum and its root. Elsewhere this norm
  keeps the exact value.
\<close>

definition underflowing_norm :: "vec3 \<Rightarrow> real" where
  "underflowing_norm v =
     (case v of (x, y, z) \<Rightarrow>
        let s = x * x + y * y + z * z
        in if s < 1 / 2 ^ 1075 then 0 else sqrt s)"

subsection \<open>The bond threshold\<close>

definition determine_bond_threshold :: "string \<Rightarrow> string \<Rightarrow> real" where
  "determine_bond_threshold atom_type1 atom_type2 =
     (let default_threshold = 1.6
      in if (atom_type1 = ''P'' \<and> atom_type2 = ''O'') \<or> (atom_type1 = ''O'' \<and> atom_type2 = ''P'')
         then 1.8
         else default_threshold)"

subsection \<open>Parsing\<close>

type_synonym atom = "string \<times> vec3"

text \<open>\<^verbatim>\<open>map(float, tokens)\<close>, consumed from the left: the first bad token raises.\<close>

fun map_float :: "(string \<Rightarrow> real option) \<Rightarrow> string list \<Rightarrow> error + real list" where
  "map_float float_of [] = Inr []"
| "map_float float_of (t # ts) =
     (case float_of t of
        None \<Rightarrow> Inl (CouldNotConvert t)
      | Some v \<Rightarrow> (case map_float float_of ts of Inl e \<Rightarrow> Inl e | Inr vs \<Rightarrow> Inr (v # vs)))"

text \<open>The body of the loop over the lines; \<^verbatim>\<open>parts[1:4]\<close> is \<open>take 3 (drop 1 parts)\<close>.\<close>

definition parse_line :: "(string \<Rightarrow> real option) \<Rightarrow> string \<Rightarrow> atom list \<Rightarrow> error + atom list" where
  "parse_line float_of line atoms =
     (let parts = split line
      in if length parts < 4 then Inr atoms
         else (case item parts 0 of
                 Inl e \<Rightarrow> Inl e
               | Inr atom_type \<Rightarrow>
                   (case map_float float_of (take 3 (drop 1 parts)) of
                      Inl e \<Rightarrow> Inl e
                    | Inr [x, y, z] \<Rightarrow> Inr (atoms @ [(atom_type, (x, y, z))])
                    | Inr _ \<Rightarrow> Inl UnpackError)))"

definition parse_xyz_data :: "(string \<Rightarrow> real option) \<Rightarrow> string \<Rightarrow> error + atom list" where
  "parse_xyz_data float_of xyz_data =
     (let lines = split_lines (strip xyz_data)
      in for_each (parse_line float_of) lines [])"

subsection \<open>The scene\<close>

definition preamble :: "string list" where
  "preamble =
     [''A 0.2 255,255,255'',
      ''C -50.0,0.0,20.0 0.0,0.0,1.0 70'',
      ''L -40.0,50.0,0.0 0.6 10,0,255'']"

definition sphere_color :: "string \<Rightarrow> nat \<times> nat \<times> nat" where
  "sphere_color atom_type =
     (if atom_type = ''C'' then (128, 128, 128)
      else if atom_type = ''N'' then (0, 0, 255)
      else if atom_type = ''O'' then (255, 0, 0)
      else if atom_type = ''H'' then (255, 255, 255)
      else if atom_type = ''P'' then (255, 165, 0)
      else (255, 255, 255))"

text \<open>The format of a sphere line, with the values it prints as arguments.\<close>

fun sp_format :: "(nat \<Rightarrow> real \<Rightarrow> string) \<Rightarrow> vec3 \<Rightarrow> real \<Rightarrow> nat \<times> nat \<times> nat \<Rightarrow> string" where
  "sp_format fmt (px, py, pz) radius (r, g, b) =
     ''sp '' @ fmt 4 px @ '','' @ fmt 4 py @ '','' @ fmt 4 pz @ '' '' @ fmt 2 radius @ '' ''
       @ str_nat r @ '','' @ str_nat g @ '','' @ str_nat b"

text \<open>The body of the loop over the atoms.\<close>

definition sphere_step :: "(nat \<Rightarrow> real \<Rightarrow> string) \<Rightarrow> atom \<Rightarrow> string list \<Rightarrow> string list" where
  "sphere_step fmt a content =
     (case a of (atom_type, position) \<Rightarrow>
        let sphere_radius = 1.0
        in content @ [sp_format fmt position (sphere_radius * 1) (sphere_color atom_type)])"

text \<open>The format of a cylinder line, with the values it prints as arguments.\<close>

fun cy_format ::
  "(nat \<Rightarrow> real \<Rightarrow> string) \<Rightarrow> vec3 \<Rightarrow> vec3 \<Rightarrow> real \<Rightarrow> real \<Rightarrow> nat \<times> nat \<times> nat \<Rightarrow> string" where
  "cy_format fmt (cx, cy, cz) (dx, dy, dz) radius height (r, g, b) =
     ''cy '' @ fmt 4 cx @ '','' @ fmt 4 cy @ '','' @ fmt 4 cz @ '' ''
       @ fmt 4 dx @ '','' @ fmt 4 dy @ '','' @ fmt 4 dz @ '' ''
       @ fmt 2 radius @ '' '' @ fmt 2 height @ '' ''
       @ str_nat r @ '','' @ str_nat g @ '','' @ str_nat b"

text \<open>The body of the inner loop over the pairs \<open>i < j\<close>.\<close>

definition bond_step ::
  "(nat \<Rightarrow> real \<Rightarrow> string) \<Rightarrow> atom list \<Rightarrow> nat \<Rightarrow> nat \<Rightarrow> string list \<Rightarrow> error + string list" where
  "bond_step fmt atoms i j content =
     (let cylinder_radius = 0.2
      in case item atoms i of
           Inl e \<Rightarrow> Inl e
         | Inr (atom_type1, position1) \<Rightarrow>
             (case item atoms j of
                Inl e \<Rightarrow> Inl e
              | Inr (atom_type2, position2) \<Rightarrow>
                  let distance = calculate_distance position1 position2;
                      bond_threshold = determine_bond_threshold atom_type1 atom_type2
                  in if distance < bond_threshold
                     then (case vdiv (vadd position1 position2) 2 of
                             Inl e \<Rightarrow> Inl e
                           | Inr center \<Rightarrow>
                               let height = distance
                               in (case normalize_vector (vsub position2 position1) of
                                     Inl e \<Rightarrow> Inl e
                                   | Inr direction \<Rightarrow>
                                       Inr (content @
                                         [cy_format fmt center direction (cylinder_radius * 2)
                                            height (200, 200, 200)])))
                     else Inr content))"

text \<open>The list \<^verbatim>\<open>content\<close> when the loops are over.\<close>

definition map_content :: "(nat \<Rightarrow> real \<Rightarrow> string) \<Rightarrow> atom list \<Rightarrow> error + string list" where
  "map_content fmt atoms =
     (let content = preamble;
          content = fold (sphere_step fmt) atoms content
      in for_each
           (\<lambda>i. for_each (bond_step fmt atoms i) [i + 1 ..< length atoms])
           [0 ..< length atoms] content)"

definition generate_map_content :: "(nat \<Rightarrow> real \<Rightarrow> string) \<Rightarrow> atom list \<Rightarrow> error + string" where
  "generate_map_content fmt atoms =
     (case map_content fmt atoms of Inl e \<Rightarrow> Inl e | Inr content \<Rightarrow> Inr (join_lines content))"

subsection \<open>Notions of the specification\<close>

text \<open>The midpoint of two positions.\<close>

fun midpoint :: "vec3 \<Rightarrow> vec3 \<Rightarrow> vec3" where
  "midpoint (x1, y1, z1) (x2, y2, z2) = ((x1 + x2) / 2, (y1 + y2) / 2, (z1 + z2) / 2)"

text \<open>The vector scaled to length one, and the zero vector for the zero vector.\<close>

fun unit_vector :: "vec3 \<Rightarrow> vec3" where
  "unit_vector (x, y, z) =
     (if (x, y, z) = (0, 0, 0) then (0, 0, 0)
      else (x / sqrt (x * x + y * y + z * z), y / sqrt (x * x + y * y + z * z),
            z / sqrt (x * x + y * y + z * z)))"

text \<open>The pairs of indices \<open>i < j < n\<close>, the outer index first.\<close>

definition index_pairs :: "nat \<Rightarrow> (nat \<times> nat) list" where
  "index_pairs n = concat (map (\<lambda>i. map (Pair i) [i + 1 ..< n]) [0 ..< n])"

fun pair_before :: "nat \<times> nat \<Rightarrow> nat \<times> nat \<Rightarrow> bool" where
  "pair_before (i, j) (k, l) = (i < k \<or> (i = k \<and> j < l))"

text \<open>A pair of atoms is bonded when their distance is below the threshold of their labels.\<close>

fun bonded :: "atom list \<Rightarrow> nat \<times> nat \<Rightarrow> bool" where
  "bonded atoms (i, j) =
     (calculate_distance (snd (atoms ! i)) (snd (atoms ! j))
        < determine_bond_threshold (fst (atoms ! i)) (fst (atoms ! j)))"

text \<open>The sphere of an atom and the cylinder of a pair of atoms, as the specification describes them.\<close>

definition sphere_line :: "(nat \<Rightarrow> real \<Rightarrow> string) \<Rightarrow> atom \<Rightarrow> string" where
  "sphere_line fmt a = sp_format fmt (snd a) 1 (sphere_color (fst a))"

fun cylinder_line :: "(nat \<Rightarrow> real \<Rightarrow> string) \<Rightarrow> atom list \<Rightarrow> nat \<times> nat \<Rightarrow> string" where
  "cylinder_line fmt atoms (i, j) =
     cy_format fmt (midpoint (snd (atoms ! i)) (snd (atoms ! j)))
       (unit_vector (vsub (snd (atoms ! j)) (snd (atoms ! i)))) 0.4
       (calculate_distance (snd (atoms ! i)) (snd (atoms ! j))) (200, 200, 200)"

text \<open>The lines that the body of the inner loop adds for the pair \<open>(i, j)\<close>.\<close>

fun emitted_for :: "(nat \<Rightarrow> real \<Rightarrow> string) \<Rightarrow> atom list \<Rightarrow> nat \<times> nat \<Rightarrow> string list" where
  "emitted_for fmt atoms (i, j) =
     (case bond_step fmt atoms i j [] of Inl e \<Rightarrow> [] | Inr ls \<Rightarrow> ls)"

text \<open>The kind of a line of the scene is its first word.\<close>

definition is_sphere :: "string \<Rightarrow> bool" where
  "is_sphere l = (take 3 l = ''sp '')"

definition is_cylinder :: "string \<Rightarrow> bool" where
  "is_cylinder l = (take 3 l = ''cy '')"

text \<open>The atom that a line of at least four tokens stands for, when its numbers parse.\<close>

definition atom_of :: "(string \<Rightarrow> real option) \<Rightarrow> string \<Rightarrow> atom" where
  "atom_of float_of line =
     (let parts = split line
      in (parts ! 0, (the (float_of (parts ! 1)), the (float_of (parts ! 2)), the (float_of (parts ! 3)))))"

definition bad_number :: "(string \<Rightarrow> real option) \<Rightarrow> string \<Rightarrow> bool" where
  "bad_number float_of line =
     (let parts = split line
      in 4 \<le> length parts \<and>
         (float_of (parts ! 1) = None \<or> float_of (parts ! 2) = None \<or> float_of (parts ! 3) = None))"

subsection \<open>An instance of the format, for the examples\<close>

text \<open>
  \<^verbatim>\<open>f"{x:.pf}"\<close> on a real: the nearest decimal with \<open>p\<close> digits after the point, a tie
  going to the even one, and the sign of \<open>x\<close>.
\<close>

definition round_half_even :: "real \<Rightarrow> nat" where
  "round_half_even y =
     (let q = \<lfloor>y\<rfloor>; r = y - of_int q
      in nat (if r < 1 / 2 then q else if 1 / 2 < r then q + 1 else if even q then q else q + 1))"

definition fixed_point :: "nat \<Rightarrow> real \<Rightarrow> string" where
  "fixed_point p x =
     (let m = round_half_even (\<bar>x\<bar> * 10 ^ p);
          whole = str_nat (m div 10 ^ p);
          frac = str_nat (m mod 10 ^ p)
      in (if x < 0 then ''-'' else []) @ whole @
         (if p = 0 then [] else ''.'' @ replicate (p - length frac) (CHR ''0'') @ frac))"

text \<open>
  \<^verbatim>\<open>float(s)\<close> on the tokens that the examples use: three of them are numbers, and no
  other token of the examples is one.
\<close>

definition float_table :: "string \<Rightarrow> real option" where
  "float_table = [''0.0'' \<mapsto> 0, ''1.0'' \<mapsto> 1, ''2.0'' \<mapsto> 2]"

section \<open>Properties\<close>

subsection \<open>Auxiliary facts\<close>


lemma linalg_norm_zero_iff: "linalg_norm v = 0 \<longleftrightarrow> v = (0, 0, 0)"
proof (cases v)
  case (fields x y z)
  have "x * x + y * y + z * z = 0 \<longleftrightarrow> x = 0 \<and> y = 0 \<and> z = 0"
    by (metis add_nonneg_eq_0_iff mult_eq_0_iff zero_le_square add_nonneg_nonneg)
  then show ?thesis using fields by simp
qed

lemma normalize_unit: "normalize_vector v = Inr (unit_vector v)"
proof (cases v)
  case (fields x y z)
  show ?thesis
  proof (cases "v = (0, 0, 0)")
    case True
    then show ?thesis by (simp add: normalize_vector_def normalize_with_def)
  next
    case False
    then have "linalg_norm v \<noteq> 0" by (simp add: linalg_norm_zero_iff)
    then show ?thesis using False fields by (simp add: normalize_vector_def normalize_with_def Let_def)
  qed
qed

lemma halve: "vdiv (vadd p q) 2 = Inr (midpoint p q)"
  by (cases p; cases q) simp

lemma bond_step_eq:
  assumes "i < length atoms" "j < length atoms"
  shows "bond_step fmt atoms i j content =
     Inr (content @ (if bonded atoms (i, j) then [cylinder_line fmt atoms (i, j)] else []))"
proof (cases "atoms ! i"; cases "atoms ! j")
  fix t1 p1 t2 p2
  assume a: "atoms ! i = (t1, p1)" "atoms ! j = (t2, p2)"
  have r: "(0.2 :: real) * 2 = 0.4" by simp
  show ?thesis using assms a
    by (simp add: bond_step_def item_def halve normalize_unit Let_def r del: vadd.simps vsub.simps midpoint.simps unit_vector.simps)
qed

lemma for_each_append:
  assumes "\<And>x s. x \<in> set xs \<Longrightarrow> body x s = Inr (s @ g x)"
  shows "for_each body xs s = Inr (s @ concat (map g xs))"
  using assms by (induction xs arbitrary: s) simp_all

lemma fold_sphere_step: "fold (sphere_step fmt) atoms content = content @ map (sphere_line fmt) atoms"
  by (induction atoms arbitrary: content) (auto simp: sphere_step_def sphere_line_def)

lemma concat_map_if:
  "concat (map (\<lambda>j. if P (h j) then [g (h j)] else []) xs) = map g (filter P (map h xs))"
  by (induction xs) simp_all

lemma inner_loop:
  assumes "i < length atoms"
  shows "for_each (bond_step fmt atoms i) [i + 1 ..< length atoms] content =
     Inr (content @ map (cylinder_line fmt atoms)
            (filter (bonded atoms) (map (Pair i) [i + 1 ..< length atoms])))"
proof -
  have "for_each (bond_step fmt atoms i) [i + 1 ..< length atoms] content =
      Inr (content @ concat (map (\<lambda>j. if bonded atoms (i, j) then [cylinder_line fmt atoms (i, j)] else [])
             [i + 1 ..< length atoms]))"
    by (rule for_each_append) (simp add: bond_step_eq assms del: bonded.simps cylinder_line.simps)
  also have "concat (map (\<lambda>j. if bonded atoms (i, j) then [cylinder_line fmt atoms (i, j)] else [])
             [i + 1 ..< length atoms])
     = map (cylinder_line fmt atoms) (filter (bonded atoms) (map (Pair i) [i + 1 ..< length atoms]))"
    by (rule concat_map_if)
  finally show ?thesis .
qed

lemma map_content_eq:
  "map_content fmt atoms =
     Inr (preamble @ map (sphere_line fmt) atoms
            @ map (cylinder_line fmt atoms) (filter (bonded atoms) (index_pairs (length atoms))))"
proof -
  have "for_each (\<lambda>i. for_each (bond_step fmt atoms i) [i + 1 ..< length atoms]) [0 ..< length atoms] content
     = Inr (content @ concat (map (\<lambda>i. map (cylinder_line fmt atoms)
            (filter (bonded atoms) (map (Pair i) [i + 1 ..< length atoms]))) [0 ..< length atoms]))" for content
    by (rule for_each_append) (use inner_loop in simp)
  then show ?thesis
    by (simp add: map_content_def fold_sphere_step index_pairs_def map_concat filter_concat o_def)
qed

lemma generate_eq:
  "generate_map_content fmt atoms =
     Inr (join_lines (preamble @ map (sphere_line fmt) atoms
            @ map (cylinder_line fmt atoms) (filter (bonded atoms) (index_pairs (length atoms)))))"
  by (simp add: generate_map_content_def map_content_eq)

lemma set_index_pairs: "set (index_pairs n) = {(i, j). i < j \<and> j < n}"
proof -
  have "(a, b) \<in> set (index_pairs n) \<longleftrightarrow> a < b \<and> b < n" for a b
    by (auto simp: index_pairs_def intro!: bexI [of _ a])
  then show ?thesis by auto
qed

lemma sorted_wrt_concat_map:
  assumes "\<And>x. x \<in> set xs \<Longrightarrow> sorted_wrt R (f x)"
    and "sorted_wrt (\<lambda>x y. \<forall>a \<in> set (f x). \<forall>b \<in> set (f y). R a b) xs"
  shows "sorted_wrt R (concat (map f xs))"
  using assms by (induction xs) (auto simp: sorted_wrt_append)

lemma sorted_index_pairs: "sorted_wrt pair_before (index_pairs n)"
  unfolding index_pairs_def
proof (rule sorted_wrt_concat_map)
  fix i
  show "sorted_wrt pair_before (map (Pair i) [i + 1 ..< n])"
    by (simp add: sorted_wrt_map)
next
  have "sorted_wrt (<) [0 ..< n]" by simp
  then show "sorted_wrt (\<lambda>x y. \<forall>a \<in> set (map (Pair x) [x + 1 ..< n]).
        \<forall>b \<in> set (map (Pair y) [y + 1 ..< n]). pair_before a b) [0 ..< n]"
    by (rule sorted_wrt_mono_rel [rotated]) auto
qed

lemma sorted_wrt_irrefl_distinct:
  assumes "sorted_wrt R xs" and "\<And>x. \<not> R x x"
  shows "distinct xs"
  using assms by (induction xs) auto

lemma distinct_index_pairs: "distinct (index_pairs n)"
  by (rule sorted_wrt_irrefl_distinct [OF sorted_index_pairs]) auto

lemma length_index_pairs: "length (index_pairs n) = n * (n - 1) div 2"
proof -
  have "length (index_pairs n) = (\<Sum>i \<leftarrow> [0 ..< n]. n - Suc i)"
    by (simp add: index_pairs_def length_concat o_def)
  also have "\<dots> = (\<Sum>i < n. n - Suc i)"
    by (simp add: interv_sum_list_conv_sum_set_nat atLeast0LessThan)
  also have "\<dots> = (\<Sum>i < n. i)"
    by (rule sum.nat_diff_reindex)
  also have "\<dots> = n * (n - 1) div 2"
  proof (cases n)
    case 0
    then show ?thesis by simp
  next
    case (Suc m)
    have "{..<Suc m} = {0..m}" by auto
    then show ?thesis using Suc by (simp add: gauss_sum_nat mult.commute del: sum.lessThan_Suc)
  qed
  finally show ?thesis .
qed


lemma is_cylinder_cy_format [simp]: "is_cylinder (cy_format fmt c d r h col)"
  by (cases c; cases d; cases col) (simp add: is_cylinder_def)

lemma not_sphere_cy_format [simp]: "\<not> is_sphere (cy_format fmt c d r h col)"
  by (cases c; cases d; cases col) (simp add: is_sphere_def)

lemma is_sphere_sp_format [simp]: "is_sphere (sp_format fmt p r col)"
  by (cases p; cases col) (simp add: is_sphere_def)

lemma not_cylinder_sp_format [simp]: "\<not> is_cylinder (sp_format fmt p r col)"
  by (cases p; cases col) (simp add: is_cylinder_def)

lemma emitted_for_eq:
  assumes "i < length atoms" "j < length atoms"
  shows "emitted_for fmt atoms (i, j) =
     (if bonded atoms (i, j) then [cylinder_line fmt atoms (i, j)] else [])"
  using bond_step_eq [OF assms, of fmt "[]"] by (simp del: bonded.simps cylinder_line.simps)

lemma concat_map_filter:
  "concat (map (\<lambda>p. if P p then [g p] else []) xs) = map g (filter P xs)"
  by (induction xs) simp_all

lemma concat_emitted_for:
  "concat (map (emitted_for fmt atoms) (index_pairs (length atoms))) =
     map (cylinder_line fmt atoms) (filter (bonded atoms) (index_pairs (length atoms)))"
proof -
  have "map (emitted_for fmt atoms) (index_pairs (length atoms)) =
      map (\<lambda>p. if bonded atoms p then [cylinder_line fmt atoms p] else [])
        (index_pairs (length atoms))"
    by (rule map_cong) (auto simp: set_index_pairs emitted_for_eq simp del: emitted_for.simps bonded.simps cylinder_line.simps)
  then show ?thesis
    by (simp only: concat_map_filter)
qed

lemma is_cylinder_cylinder_line [simp]: "is_cylinder (cylinder_line fmt atoms p)"
  by (cases p) simp

lemma not_sphere_cylinder_line [simp]: "\<not> is_sphere (cylinder_line fmt atoms p)"
  by (cases p) simp

subsection \<open>Bonds and the threshold\<close>

text \<open>
  Claim C1. The cylinder lines of the scene are the lines that the pairs \<open>i < j\<close> emit,
  each pair once. A pair emits a line, and then one cylinder line only, exactly when the
  distance of its two atoms is strictly below the threshold of their labels; at a distance
  equal to the threshold it emits nothing.
\<close>

theorem cylinder_iff_below_threshold:
  assumes "i < j" and "j < length atoms"
  shows "generate_map_content fmt atoms =
       Inr (join_lines (preamble @ map (sphere_line fmt) atoms
              @ concat (map (emitted_for fmt atoms) (index_pairs (length atoms)))))
     \<and> (i, j) \<in> set (index_pairs (length atoms))
     \<and> distinct (index_pairs (length atoms))
     \<and> (emitted_for fmt atoms (i, j) \<noteq> []) =
         (calculate_distance (snd (atoms ! i)) (snd (atoms ! j))
            < determine_bond_threshold (fst (atoms ! i)) (fst (atoms ! j)))
     \<and> length (emitted_for fmt atoms (i, j)) \<le> 1
     \<and> list_all is_cylinder (emitted_for fmt atoms (i, j))
     \<and> (calculate_distance (snd (atoms ! i)) (snd (atoms ! j))
            = determine_bond_threshold (fst (atoms ! i)) (fst (atoms ! j))
          \<longrightarrow> emitted_for fmt atoms (i, j) = [])"
proof -
  from assms have i: "i < length atoms" by simp
  have e: "emitted_for fmt atoms (i, j) =
      (if bonded atoms (i, j) then [cylinder_line fmt atoms (i, j)] else [])"
    by (rule emitted_for_eq [OF i assms(2)])
  have g: "generate_map_content fmt atoms =
       Inr (join_lines (preamble @ map (sphere_line fmt) atoms
              @ concat (map (emitted_for fmt atoms) (index_pairs (length atoms)))))"
    by (simp only: generate_eq concat_emitted_for)
  have m: "(i, j) \<in> set (index_pairs (length atoms))"
    using assms by (simp add: set_index_pairs)
  show ?thesis
    using g m distinct_index_pairs [of "length atoms"]
    by (simp add: e del: emitted_for.simps cylinder_line.simps)
qed

lemma linalg_norm_axis: "linalg_norm (x, 0, 0) = \<bar>x\<bar>"
  by simp

text \<open>
  Two carbon atoms at the distance 1.6, which is their threshold, emit nothing; at the
  distance 1 they emit a line.
\<close>

theorem cylinder_iff_below_threshold_witness:
  "(0::nat) < 1 \<and> 1 < length ([(''C'', (0, 0, 0)), (''C'', (1.6, 0, 0))] :: atom list)
   \<and> calculate_distance (0, 0, 0) (1.6, 0, 0) = determine_bond_threshold ''C'' ''C''
   \<and> emitted_for fixed_point [(''C'', (0, 0, 0)), (''C'', (1.6, 0, 0))] (0, 1) = []
   \<and> emitted_for fixed_point [(''C'', (0, 0, 0)), (''C'', (1, 0, 0))] (0, 1) \<noteq> []"
proof -
  have a: "(0::nat) < 1" by simp
  have b: "1 < length ([(''C'', (0, 0, 0)), (''C'', (1.6, 0, 0))] :: atom list)" by simp
  have b': "1 < length ([(''C'', (0, 0, 0)), (''C'', (1, 0, 0))] :: atom list)" by simp
  have d: "calculate_distance (0, 0, 0) (1.6, 0, 0) = determine_bond_threshold ''C'' ''C''"
    unfolding calculate_distance_def determine_bond_threshold_def vsub.simps
    by (simp only: diff_zero linalg_norm_axis Let_def) simp
  have d': "calculate_distance (0, 0, 0) (1, 0, 0) < determine_bond_threshold ''C'' ''C''"
    by (simp add: calculate_distance_def determine_bond_threshold_def)
  have "emitted_for fixed_point [(''C'', (0, 0, 0)), (''C'', (1.6, 0, 0))] (0, 1) = []"
    using cylinder_iff_below_threshold [OF a b, of fixed_point] d by (simp del: emitted_for.simps)
  moreover have "emitted_for fixed_point [(''C'', (0, 0, 0)), (''C'', (1, 0, 0))] (0, 1) \<noteq> []"
    using cylinder_iff_below_threshold [OF a b', of fixed_point] d' by (simp del: emitted_for.simps)
  ultimately show ?thesis using d by simp
qed


text \<open>
  Claim C2. The threshold is 1.8 when the two labels are P and O in either order and 1.6
  for every other pair of labels, and it does not depend on the order of the labels.
\<close>

theorem determine_bond_threshold_table:
  "determine_bond_threshold a b = (if {a, b} = {''P'', ''O''} then 1.8 else 1.6)
   \<and> determine_bond_threshold a b = determine_bond_threshold b a"
  by (auto simp: determine_bond_threshold_def doubleton_eq_iff)

subsection \<open>Normalisation\<close>

text \<open>
  Claim C6, as the code has it. Whatever the library computes as the norm, normalising a
  vector never raises and never divides by zero: when the computed norm is zero the
  vector comes back as it is, and otherwise it comes back divided by the computed norm.
  The zero vector comes back as the zero vector.
\<close>

theorem normalize_guarded:
  "normalize_with norm_of (x, y, z) =
     Inr (if norm_of (x, y, z) = 0 then (x, y, z)
          else (x / norm_of (x, y, z), y / norm_of (x, y, z), z / norm_of (x, y, z)))
   \<and> normalize_with norm_of (x, y, z) \<noteq> Inl e
   \<and> normalize_with norm_of (0, 0, 0) = Inr (0, 0, 0)"
  by (simp add: normalize_with_def Let_def)

text \<open>
  The claim as it is worded fails: a vector of computed norm zero need not be the zero
  vector, and a non-zero vector need not come back divided by its norm. In float64 the
  norm of \<open>(1 / 10 ^ 200, 0, 0)\<close> underflows to zero, and the vector comes back unchanged,
  where the vector divided by its norm is \<open>(1, 0, 0)\<close>.
\<close>

lemma tiny_square:
  "(1 / 10 ^ 200) * (1 / 10 ^ 200) < (1 / 2 ^ 1075 :: real)"
  by simp

theorem normalize_tiny_vector_unchanged:
  "(1 / 10 ^ 200, 0, 0) \<noteq> ((0, 0, 0) :: vec3)
   \<and> underflowing_norm (1 / 10 ^ 200, 0, 0) = 0
   \<and> normalize_with underflowing_norm (1 / 10 ^ 200, 0, 0) = Inr (1 / 10 ^ 200, 0, 0)
   \<and> normalize_with underflowing_norm (1 / 10 ^ 200, 0, 0) \<noteq> Inr (1, 0, 0)"
proof -
  have n: "underflowing_norm (1 / 10 ^ 200, 0, 0) = 0"
    using tiny_square by (simp add: underflowing_norm_def Let_def del: power_numeral)
  have r: "normalize_with underflowing_norm (1 / 10 ^ 200, 0, 0) = Inr (1 / 10 ^ 200, 0, 0)"
    by (simp only: normalize_with_def Let_def n simp_thms if_True)
  have z: "(1 / 10 ^ 200 :: real) \<noteq> 0" "(1 / 10 ^ 200 :: real) \<noteq> 1"
    by simp_all
  from n r z show ?thesis
    by (simp only: prod.inject sum.inject simp_thms)
qed

subsection \<open>The empty scene\<close>

text \<open>
  Claim C7. For the empty atom list the scene is the three lines of the preamble and
  nothing else, returned as a result and not as an error.
\<close>

theorem empty_scene_is_preamble:
  "map_content fmt [] =
     Inr [''A 0.2 255,255,255'', ''C -50.0,0.0,20.0 0.0,0.0,1.0 70'', ''L -40.0,50.0,0.0 0.6 10,0,255'']
   \<and> generate_map_content fmt [] =
     Inr (''A 0.2 255,255,255'' @ newline # ''C -50.0,0.0,20.0 0.0,0.0,1.0 70''
            @ newline # ''L -40.0,50.0,0.0 0.6 10,0,255'')"
  by (simp add: generate_map_content_def map_content_def preamble_def)

subsection \<open>The cylinder of a bonded pair\<close>

text \<open>
  Claim C3. The cylinder lines of the scene are the cylinders of the bonded pairs, and the
  cylinder of a pair \<open>(i, j)\<close> prints the midpoint of the two positions as its centre, the
  normalised difference of the second position and the first as its direction, the
  radius 0.4, the distance of the two positions as its length and the colour
  200,200,200.
\<close>

theorem cylinder_parameters:
  assumes "i < j" and "j < length atoms"
    and "atoms ! i = (t1, (x1, y1, z1))" and "atoms ! j = (t2, (x2, y2, z2))"
    and "calculate_distance (x1, y1, z1) (x2, y2, z2) < determine_bond_threshold t1 t2"
  shows "generate_map_content fmt atoms =
       Inr (join_lines (preamble @ map (sphere_line fmt) atoms
              @ map (cylinder_line fmt atoms) (filter (bonded atoms) (index_pairs (length atoms)))))
     \<and> (i, j) \<in> set (filter (bonded atoms) (index_pairs (length atoms)))
     \<and> emitted_for fmt atoms (i, j) = [cylinder_line fmt atoms (i, j)]
     \<and> cylinder_line fmt atoms (i, j) =
         cy_format fmt ((x1 + x2) / 2, (y1 + y2) / 2, (z1 + z2) / 2)
           (unit_vector (x2 - x1, y2 - y1, z2 - z1)) 0.4
           (sqrt ((x2 - x1) * (x2 - x1) + (y2 - y1) * (y2 - y1) + (z2 - z1) * (z2 - z1)))
           (200, 200, 200)
     \<and> normalize_vector (vsub (x2, y2, z2) (x1, y1, z1)) = Inr (unit_vector (x2 - x1, y2 - y1, z2 - z1))
     \<and> calculate_distance (x1, y1, z1) (x2, y2, z2)
         = sqrt ((x2 - x1) * (x2 - x1) + (y2 - y1) * (y2 - y1) + (z2 - z1) * (z2 - z1))"
proof -
  from assms have i: "i < length atoms" by simp
  have b: "bonded atoms (i, j)" using assms(3-5) by simp
  have m: "(i, j) \<in> set (filter (bonded atoms) (index_pairs (length atoms)))"
    using assms(1,2) b by (simp add: set_index_pairs del: bonded.simps)
  have e: "emitted_for fmt atoms (i, j) = [cylinder_line fmt atoms (i, j)]"
    using emitted_for_eq [OF i assms(2), of fmt] b by (simp del: bonded.simps emitted_for.simps cylinder_line.simps)
  have n: "normalize_vector (vsub (x2, y2, z2) (x1, y1, z1)) = Inr (unit_vector (x2 - x1, y2 - y1, z2 - z1))"
    using normalize_unit [of "vsub (x2, y2, z2) (x1, y1, z1)"] by (simp del: unit_vector.simps)
  have c: "cylinder_line fmt atoms (i, j) =
         cy_format fmt ((x1 + x2) / 2, (y1 + y2) / 2, (z1 + z2) / 2)
           (unit_vector (x2 - x1, y2 - y1, z2 - z1)) 0.4
           (sqrt ((x2 - x1) * (x2 - x1) + (y2 - y1) * (y2 - y1) + (z2 - z1) * (z2 - z1)))
           (200, 200, 200)"
    using assms(3,4) by (simp add: calculate_distance_def del: unit_vector.simps cy_format.simps)
  have d: "calculate_distance (x1, y1, z1) (x2, y2, z2)
         = sqrt ((x2 - x1) * (x2 - x1) + (y2 - y1) * (y2 - y1) + (z2 - z1) * (z2 - z1))"
    by (simp add: calculate_distance_def)
  from generate_eq [of fmt atoms] m e c n d show ?thesis by (intro conjI)
qed


lemma str_nat_0: "str_nat 0 = ''0''"
  by (simp add: str_nat.simps digit_char_def)
lemma str_nat_1: "str_nat (Suc 0) = ''1''"
  by (simp add: str_nat.simps digit_char_def)
lemma str_nat_200: "str_nat 200 = ''200''"
  by (simp add: str_nat.simps digit_char_def)
lemma str_nat_40: "str_nat 40 = ''40''"
  by (simp add: str_nat.simps digit_char_def)
lemma str_nat_5000: "str_nat 5000 = ''5000''"
  by (simp add: str_nat.simps digit_char_def)
lemma replicate_3: "replicate 3 c = [c, c, c]"
  by (simp add: numeral_3_eq_3)

lemma fixed_point_0: "fixed_point 4 0 = ''0.0000''" "fixed_point 2 0 = ''0.00''"
  by (simp_all add: fixed_point_def round_half_even_def Let_def str_nat_0 replicate_3)

lemma fixed_point_1: "fixed_point 4 1 = ''1.0000''" "fixed_point 2 1 = ''1.00''"
  by (simp_all add: fixed_point_def round_half_even_def Let_def str_nat_0 str_nat_1 replicate_3)

lemma fixed_point_half: "fixed_point 4 (1 / 2) = ''0.5000''"
  by (simp add: fixed_point_def round_half_even_def Let_def str_nat_0 str_nat_5000)

lemma fixed_point_radius: "fixed_point 2 (2 / 5) = ''0.40''"
  by (simp add: fixed_point_def round_half_even_def Let_def str_nat_0 str_nat_40)

theorem cylinder_parameters_witness:
  "(0::nat) < 1 \<and> 1 < length ([(''C'', (0, 0, 0)), (''C'', (1, 0, 0))] :: atom list)
   \<and> calculate_distance (0, 0, 0) (1, 0, 0) < determine_bond_threshold ''C'' ''C''
   \<and> emitted_for fixed_point [(''C'', (0, 0, 0)), (''C'', (1, 0, 0))] (0, 1) =
       [''cy 0.5000,0.0000,0.0000 1.0000,0.0000,0.0000 0.40 1.00 200,200,200'']"
proof -
  let ?atoms = "([(''C'', (0, 0, 0)), (''C'', (1, 0, 0))] :: atom list)"
  have a: "(0::nat) < 1" by simp
  have b: "1 < length ?atoms" by simp
  have c: "?atoms ! 0 = (''C'', (0, 0, 0))" by simp
  have d: "?atoms ! 1 = (''C'', (1, 0, 0))" by simp
  have e: "calculate_distance (0, 0, 0) (1, 0, 0) < determine_bond_threshold ''C'' ''C''"
    by (simp add: calculate_distance_def determine_bond_threshold_def)
  have "emitted_for fixed_point ?atoms (0, 1) =
      [cy_format fixed_point ((0 + 1) / 2, (0 + 0) / 2, (0 + 0) / 2)
         (unit_vector (1 - 0, 0 - 0, 0 - 0)) 0.4
         (sqrt ((1 - 0) * (1 - 0) + (0 - 0) * (0 - 0) + (0 - 0) * (0 - 0))) (200, 200, 200)]"
    using cylinder_parameters [OF a b c d e, of fixed_point] by (simp only:)
  then have "emitted_for fixed_point ?atoms (0, 1) =
       [''cy 0.5000,0.0000,0.0000 1.0000,0.0000,0.0000 0.40 1.00 200,200,200'']"
    by (simp add: fixed_point_0 fixed_point_1 fixed_point_half fixed_point_radius str_nat_200
          del: emitted_for.simps)
  with a b e show ?thesis by (simp only: simp_thms)
qed



text \<open>
  Claim C9. Two atoms at the same position are a bonded pair, whatever their labels: the
  distance 0 is below both thresholds. Their cylinder has the common position as
  its centre, the zero vector as its direction and the length 0.
\<close>

theorem coincident_atoms_bonded:
  assumes "i < j" and "j < length atoms"
    and "atoms ! i = (t1, p)" and "atoms ! j = (t2, p)"
  shows "calculate_distance p p = 0
     \<and> calculate_distance p p < determine_bond_threshold t1 t2
     \<and> normalize_vector (vsub p p) = Inr (0, 0, 0)
     \<and> (i, j) \<in> set (filter (bonded atoms) (index_pairs (length atoms)))
     \<and> emitted_for fmt atoms (i, j) = [cy_format fmt p (0, 0, 0) 0.4 0 (200, 200, 200)]
     \<and> generate_map_content fmt atoms =
         Inr (join_lines (preamble @ map (sphere_line fmt) atoms
                @ map (cylinder_line fmt atoms) (filter (bonded atoms) (index_pairs (length atoms)))))"
proof -
  obtain x y z where p: "p = (x, y, z)" by (cases p)
  have z: "calculate_distance p p = 0" by (simp add: p calculate_distance_def)
  have d: "calculate_distance p p < determine_bond_threshold t1 t2"
    unfolding z by (simp add: determine_bond_threshold_def)
  have n: "normalize_vector (vsub p p) = Inr (0, 0, 0)"
    by (simp add: p normalize_vector_def normalize_with_def)
  from assms have i: "i < length atoms" by simp
  have b: "bonded atoms (i, j)" using assms(3,4) d by simp
  have m: "(i, j) \<in> set (filter (bonded atoms) (index_pairs (length atoms)))"
    using assms(1,2) b by (simp add: set_index_pairs del: bonded.simps)
  have u: "unit_vector (vsub p p) = (0, 0, 0)" by (simp add: p)
  have c: "midpoint p p = p" by (simp add: p)
  have "emitted_for fmt atoms (i, j) = [cylinder_line fmt atoms (i, j)]"
    using emitted_for_eq [OF i assms(2), of fmt] b
    by (simp del: bonded.simps emitted_for.simps cylinder_line.simps)
  also have "cylinder_line fmt atoms (i, j) = cy_format fmt p (0, 0, 0) 0.4 0 (200, 200, 200)"
    using assms(3,4) by (simp add: u c z del: cy_format.simps unit_vector.simps midpoint.simps vsub.simps)
  finally have e: "emitted_for fmt atoms (i, j) = [cy_format fmt p (0, 0, 0) 0.4 0 (200, 200, 200)]" .
  from z d n m e generate_eq [of fmt atoms] show ?thesis by (intro conjI)
qed

theorem coincident_atoms_bonded_witness:
  "(0::nat) < 1 \<and> 1 < length ([(''H'', (1, 0, 0)), (''O'', (1, 0, 0))] :: atom list)
   \<and> emitted_for fixed_point [(''H'', (1, 0, 0)), (''O'', (1, 0, 0))] (0, 1) =
       [''cy 1.0000,0.0000,0.0000 0.0000,0.0000,0.0000 0.40 0.00 200,200,200'']"
proof -
  let ?atoms = "([(''H'', (1, 0, 0)), (''O'', (1, 0, 0))] :: atom list)"
  have a: "(0::nat) < 1" by simp
  have b: "1 < length ?atoms" by simp
  have c: "?atoms ! 0 = (''H'', (1, 0, 0))" by simp
  have d: "?atoms ! 1 = (''O'', (1, 0, 0))" by simp
  have "emitted_for fixed_point ?atoms (0, 1) =
      [cy_format fixed_point (1, 0, 0) (0, 0, 0) 0.4 0 (200, 200, 200)]"
    using coincident_atoms_bonded [OF a b c d, of fixed_point] by (simp only:)
  then have "emitted_for fixed_point ?atoms (0, 1) =
       [''cy 1.0000,0.0000,0.0000 0.0000,0.0000,0.0000 0.40 0.00 200,200,200'']"
    by (simp add: fixed_point_0 fixed_point_1 fixed_point_radius str_nat_200
          del: emitted_for.simps)
  with a b show ?thesis by (simp only: simp_thms)
qed


subsection \<open>The shape of the scene\<close>

lemma is_sphere_sphere_line [simp]: "is_sphere (sphere_line fmt a)"
  by (simp add: sphere_line_def)

lemma not_cylinder_sphere_line [simp]: "\<not> is_cylinder (sphere_line fmt a)"
  by (simp add: sphere_line_def)

lemma preamble_kinds:
  "filter is_sphere preamble = []" "filter is_cylinder preamble = []" "length preamble = 3"
  by (simp_all add: preamble_def is_sphere_def is_cylinder_def)

lemma filter_map_all: "(\<And>x. P (f x)) \<Longrightarrow> filter P (map f xs) = map f xs"
  by (induction xs) simp_all

lemma filter_map_none: "(\<And>x. \<not> P (f x)) \<Longrightarrow> filter P (map f xs) = []"
  by (induction xs) simp_all

lemma bonded_pairs_card:
  "length (filter (bonded atoms) (index_pairs n)) =
     card {(i, j). i < j \<and> j < n \<and>
       calculate_distance (snd (atoms ! i)) (snd (atoms ! j))
         < determine_bond_threshold (fst (atoms ! i)) (fst (atoms ! j))}"
proof -
  have "length (filter (bonded atoms) (index_pairs n)) =
      card ({p. bonded atoms p} \<inter> set (index_pairs n))"
    by (rule distinct_length_filter) (rule distinct_index_pairs)
  also have "{p. bonded atoms p} \<inter> set (index_pairs n) =
      {(i, j). i < j \<and> j < n \<and>
       calculate_distance (snd (atoms ! i)) (snd (atoms ! j))
         < determine_bond_threshold (fst (atoms ! i)) (fst (atoms ! j))}"
    by (auto simp: set_index_pairs)
  finally show ?thesis .
qed

text \<open>
  Claim C4. For \<open>n\<close> atoms the scene has exactly \<open>n\<close> sphere lines and at most
  \<open>n (n - 1) / 2\<close> cylinder lines, and the number of its cylinder lines is the number of
  pairs \<open>i < j\<close> of atoms whose distance is strictly below the threshold of their labels.
\<close>

theorem line_counts:
  "\<exists>content.
     map_content fmt atoms = Inr content
     \<and> generate_map_content fmt atoms = Inr (join_lines content)
     \<and> length (filter is_sphere content) = length atoms
     \<and> length (filter is_cylinder content) \<le> length atoms * (length atoms - 1) div 2
     \<and> length (filter is_cylinder content) =
         card {(i, j). i < j \<and> j < length atoms \<and>
           calculate_distance (snd (atoms ! i)) (snd (atoms ! j))
             < determine_bond_threshold (fst (atoms ! i)) (fst (atoms ! j))}
     \<and> length content = 3 + length (filter is_sphere content) + length (filter is_cylinder content)"
proof -
  let ?bonds = "filter (bonded atoms) (index_pairs (length atoms))"
  let ?content = "preamble @ map (sphere_line fmt) atoms @ map (cylinder_line fmt atoms) ?bonds"
  have s: "filter is_sphere ?content = map (sphere_line fmt) atoms"
    by (simp add: preamble_kinds filter_map_all filter_map_none)
  have c: "filter is_cylinder ?content = map (cylinder_line fmt atoms) ?bonds"
    by (simp add: preamble_kinds filter_map_all filter_map_none)
  have le: "length ?bonds \<le> length atoms * (length atoms - 1) div 2"
    using length_filter_le [of "bonded atoms" "index_pairs (length atoms)"]
    by (simp only: length_index_pairs)
  have "map_content fmt atoms = Inr ?content"
    by (rule map_content_eq)
  moreover have "generate_map_content fmt atoms = Inr (join_lines ?content)"
    by (rule generate_eq)
  moreover have "length (filter is_sphere ?content) = length atoms"
    by (simp only: s length_map)
  moreover have "length (filter is_cylinder ?content) \<le> length atoms * (length atoms - 1) div 2"
    using le by (simp only: c length_map)
  moreover have "length (filter is_cylinder ?content) =
         card {(i, j). i < j \<and> j < length atoms \<and>
           calculate_distance (snd (atoms ! i)) (snd (atoms ! j))
             < determine_bond_threshold (fst (atoms ! i)) (fst (atoms ! j))}"
    by (simp only: c length_map bonded_pairs_card)
  moreover have "length ?content = 3 + length (filter is_sphere ?content) + length (filter is_cylinder ?content)"
    by (simp only: s c length_map length_append preamble_kinds)
  ultimately show ?thesis by blast
qed

text \<open>
  Claim C5. The scene is the three lines of the preamble, then the spheres of the atoms
  in the order of the atom list, then the cylinders of the bonded pairs in the order of
  the two loops: the pairs are listed with the first index increasing and, for one first
  index, the second index increasing above it. No cylinder line stands before a sphere
  line.
\<close>

theorem scene_order:
  "\<exists>content.
     map_content fmt atoms = Inr content
     \<and> generate_map_content fmt atoms = Inr (join_lines content)
     \<and> take 3 content = preamble
     \<and> take (length atoms) (drop 3 content) = map (sphere_line fmt) atoms
     \<and> drop (3 + length atoms) content =
         map (cylinder_line fmt atoms) (filter (bonded atoms) (index_pairs (length atoms)))
     \<and> index_pairs (length atoms) =
         concat (map (\<lambda>i. map (Pair i) [i + 1 ..< length atoms]) [0 ..< length atoms])
     \<and> sorted_wrt pair_before (filter (bonded atoms) (index_pairs (length atoms)))
     \<and> list_all is_sphere (take (length atoms) (drop 3 content))
     \<and> list_all is_cylinder (drop (3 + length atoms) content)"
proof -
  let ?bonds = "filter (bonded atoms) (index_pairs (length atoms))"
  let ?content = "preamble @ map (sphere_line fmt) atoms @ map (cylinder_line fmt atoms) ?bonds"
  have t: "take 3 ?content = preamble"
    by (simp add: preamble_kinds)
  have s: "take (length atoms) (drop 3 ?content) = map (sphere_line fmt) atoms"
    by (simp add: preamble_kinds)
  have c: "drop (3 + length atoms) ?content = map (cylinder_line fmt atoms) ?bonds"
    by (simp add: preamble_kinds)
  have o: "sorted_wrt pair_before ?bonds"
    by (rule sorted_wrt_filter) (rule sorted_index_pairs)
  have ls: "list_all is_sphere (take (length atoms) (drop 3 ?content))"
    unfolding s by (simp add: list_all_iff)
  have lc: "list_all is_cylinder (drop (3 + length atoms) ?content)"
    unfolding c by (simp add: list_all_iff)
  from map_content_eq [of fmt atoms] generate_eq [of fmt atoms] t s c o ls lc
    index_pairs_def [of "length atoms"]
  show ?thesis by blast
qed


subsection \<open>Parsing\<close>

lemma parse_line_short:
  "length (split line) < 4 \<Longrightarrow> parse_line float_of line atoms = Inr atoms"
  by (simp add: parse_line_def)

lemma four_tokens:
  assumes "4 \<le> length parts"
  obtains a b c d rest where "parts = a # b # c # d # rest"
  using assms by (auto simp: numeral_eq_Suc Suc_le_length_iff)

lemma parse_line_long:
  assumes "4 \<le> length (split line)"
  shows "parse_line float_of line atoms =
     (case float_of (split line ! 1) of
        None \<Rightarrow> Inl (CouldNotConvert (split line ! 1))
      | Some x \<Rightarrow>
          (case float_of (split line ! 2) of
             None \<Rightarrow> Inl (CouldNotConvert (split line ! 2))
           | Some y \<Rightarrow>
               (case float_of (split line ! 3) of
                  None \<Rightarrow> Inl (CouldNotConvert (split line ! 3))
                | Some z \<Rightarrow> Inr (atoms @ [(split line ! 0, (x, y, z))]))))"
proof -
  obtain a b c d rest where p: "split line = a # b # c # d # rest"
    using assms by (rule four_tokens)
  show ?thesis
    by (simp add: parse_line_def p item_def split: option.splits)
qed

lemma parse_line_good:
  assumes "4 \<le> length (split line)" and "\<not> bad_number float_of line"
  shows "parse_line float_of line atoms = Inr (atoms @ [atom_of float_of line])"
  using assms
  by (auto simp: parse_line_long bad_number_def atom_of_def Let_def split: option.splits)

lemma parse_line_bad:
  assumes "bad_number float_of line"
  shows "\<exists>t. parse_line float_of line atoms = Inl (CouldNotConvert t) \<and> float_of t = None"
proof -
  from assms have l: "4 \<le> length (split line)" by (simp add: bad_number_def Let_def)
  from assms show ?thesis
    unfolding parse_line_long [OF l]
    by (auto simp: bad_number_def Let_def split: option.splits)
qed

lemma for_each_skip_short:
  "for_each (parse_line float_of) ls atoms =
     for_each (parse_line float_of) (filter (\<lambda>l. 4 \<le> length (split l)) ls) atoms"
  by (induction ls arbitrary: atoms) (simp_all add: parse_line_short not_le split: sum.splits)

lemma for_each_parse_good:
  assumes "\<And>l. l \<in> set ls \<Longrightarrow> \<not> bad_number float_of l"
  shows "for_each (parse_line float_of) ls atoms =
     Inr (atoms @ map (atom_of float_of) (filter (\<lambda>l. 4 \<le> length (split l)) ls))"
  using assms
proof (induction ls arbitrary: atoms)
  case Nil
  then show ?case by simp
next
  case (Cons l ls)
  show ?case
  proof (cases "4 \<le> length (split l)")
    case True
    then have "parse_line float_of l atoms = Inr (atoms @ [atom_of float_of l])"
      using Cons.prems by (simp add: parse_line_good)
    then show ?thesis using True Cons by simp
  next
    case False
    then have "parse_line float_of l atoms = Inr atoms"
      by (simp add: parse_line_short)
    then show ?thesis using False Cons by simp
  qed
qed

lemma for_each_parse_bad:
  assumes "\<exists>l \<in> set ls. bad_number float_of l"
  shows "\<exists>t. for_each (parse_line float_of) ls atoms = Inl (CouldNotConvert t) \<and> float_of t = None"
  using assms
proof (induction ls arbitrary: atoms)
  case Nil
  then show ?case by simp
next
  case (Cons l ls)
  show ?case
  proof (cases "bad_number float_of l")
    case True
    from parse_line_bad [OF True, of atoms] show ?thesis by auto
  next
    case False
    with Cons.prems have rest: "\<exists>l \<in> set ls. bad_number float_of l" by simp
    show ?thesis
    proof (cases "4 \<le> length (split l)")
      case True
      then have "parse_line float_of l atoms = Inr (atoms @ [atom_of float_of l])"
        using False by (simp add: parse_line_good)
      then show ?thesis using Cons.IH [OF rest] by simp
    next
      case short: False
      then have "parse_line float_of l atoms = Inr atoms"
        by (simp add: parse_line_short)
      then show ?thesis using Cons.IH [OF rest] by simp
    qed
  qed
qed

text \<open>
  Claim C8. A line of fewer than four tokens leaves no trace: the parse is the parse of
  the lines of four tokens or more, in their order. It raises exactly when one of these
  lines has a second, third or fourth token that is not a number; the error is then the
  result of the whole parse, and it names a token that is not a number. Otherwise the
  result is the atoms of the lines of four tokens or more.
\<close>

theorem parse_skips_short_raises_on_bad_number:
  "parse_xyz_data float_of xyz_data =
       for_each (parse_line float_of)
         (filter (\<lambda>l. 4 \<le> length (split l)) (split_lines (strip xyz_data))) []
   \<and> (case parse_xyz_data float_of xyz_data of
         Inl e \<Rightarrow>
           (\<exists>l \<in> set (split_lines (strip xyz_data)). bad_number float_of l)
           \<and> (\<exists>t. e = CouldNotConvert t \<and> float_of t = None)
       | Inr atoms \<Rightarrow>
           \<not> (\<exists>l \<in> set (split_lines (strip xyz_data)). bad_number float_of l)
           \<and> atoms = map (atom_of float_of)
               (filter (\<lambda>l. 4 \<le> length (split l)) (split_lines (strip xyz_data))))"
proof -
  let ?ls = "split_lines (strip xyz_data)"
  have p: "parse_xyz_data float_of xyz_data = for_each (parse_line float_of) ?ls []"
    by (simp add: parse_xyz_data_def)
  have skip: "parse_xyz_data float_of xyz_data =
       for_each (parse_line float_of) (filter (\<lambda>l. 4 \<le> length (split l)) ?ls) []"
    unfolding p by (rule for_each_skip_short)
  show ?thesis
  proof (cases "\<exists>l \<in> set ?ls. bad_number float_of l")
    case True
    from for_each_parse_bad [OF True, of "[]"] obtain t
      where "parse_xyz_data float_of xyz_data = Inl (CouldNotConvert t)" "float_of t = None"
      unfolding p by blast
    with True have "case parse_xyz_data float_of xyz_data of
         Inl e \<Rightarrow>
           (\<exists>l \<in> set ?ls. bad_number float_of l)
           \<and> (\<exists>t. e = CouldNotConvert t \<and> float_of t = None)
       | Inr atoms \<Rightarrow>
           \<not> (\<exists>l \<in> set ?ls. bad_number float_of l)
           \<and> atoms = map (atom_of float_of) (filter (\<lambda>l. 4 \<le> length (split l)) ?ls)"
      by simp
    with skip show ?thesis by (rule conjI)
  next
    case False
    then have "parse_xyz_data float_of xyz_data =
        Inr (map (atom_of float_of) (filter (\<lambda>l. 4 \<le> length (split l)) ?ls))"
      unfolding p using for_each_parse_good [of ?ls float_of "[]"] by simp
    with False have "case parse_xyz_data float_of xyz_data of
         Inl e \<Rightarrow>
           (\<exists>l \<in> set ?ls. bad_number float_of l)
           \<and> (\<exists>t. e = CouldNotConvert t \<and> float_of t = None)
       | Inr atoms \<Rightarrow>
           \<not> (\<exists>l \<in> set ?ls. bad_number float_of l)
           \<and> atoms = map (atom_of float_of) (filter (\<lambda>l. 4 \<le> length (split l)) ?ls)"
      by simp
    with skip show ?thesis by (rule conjI)
  qed
qed



lemma split_examples:
  "split ''C 0.0 1.0 2.0'' = [''C'', ''0.0'', ''1.0'', ''2.0'']"
  "split ''two tokens'' = [''two'', ''tokens'']"
  "split ''H 1.0 x 1.0'' = [''H'', ''1.0'', ''x'', ''1.0'']"
  by (simp_all add: split_def isspace_def)


lemma lines_example:
  "split_lines (strip (''C 0.0 1.0 2.0'' @ newline # ''two tokens'' @ newline # ''H 1.0 x 1.0'' @ [newline]))
     = [''C 0.0 1.0 2.0'', ''two tokens'', ''H 1.0 x 1.0'']"
  by (simp add: strip_def split_lines_def isspace_def newline_def)

text \<open>
  A text of three lines: the second has two tokens and is skipped, and the third has the
  token \<open>x\<close> where a number stands, so the parse raises.
\<close>

theorem parse_skips_short_raises_on_bad_number_witness:
  "parse_xyz_data float_table
     (''C 0.0 1.0 2.0'' @ newline # ''two tokens'' @ newline # ''H 1.0 x 1.0'' @ [newline])
     = Inl (CouldNotConvert ''x'')"
proof -
  let ?s = "''C 0.0 1.0 2.0'' @ newline # ''two tokens'' @ newline # ''H 1.0 x 1.0'' @ [newline]"
  have "parse_xyz_data float_table ?s =
      for_each (parse_line float_table)
        (filter (\<lambda>l. 4 \<le> length (split l)) (split_lines (strip ?s))) []"
    using parse_skips_short_raises_on_bad_number [of float_table ?s] by (rule conjunct1)
  also have "filter (\<lambda>l. 4 \<le> length (split l)) (split_lines (strip ?s)) =
      [''C 0.0 1.0 2.0'', ''H 1.0 x 1.0'']"
    by (simp only: lines_example) (simp add: split_examples)
  also have "for_each (parse_line float_table) [''C 0.0 1.0 2.0'', ''H 1.0 x 1.0''] []
      = Inl (CouldNotConvert ''x'')"
    by (simp add: parse_line_def split_examples item_def float_table_def)
  finally show ?thesis .
qed


lemma str_nat_128:
  "str_nat 128 = ''128''"
  by (simp add: str_nat.simps digit_char_def)

lemma index_pairs_2:
  "index_pairs 2 = [(0, 1)]"
  by (simp add: index_pairs_def numeral_2_eq_2)

lemma split_scene:
  "content = take 3 content @ take n (drop 3 content) @ drop (3 + n) content"
  by (metis append_take_drop_id drop_drop add.commute)

text \<open>
  Two carbon atoms at the distance 1: the preamble, the two spheres and the one cylinder
  between them.
\<close>

theorem scene_order_witness:
  "generate_map_content fixed_point [(''C'', (0, 0, 0)), (''C'', (1, 0, 0))] =
     Inr (join_lines
       [''A 0.2 255,255,255'',
        ''C -50.0,0.0,20.0 0.0,0.0,1.0 70'',
        ''L -40.0,50.0,0.0 0.6 10,0,255'',
        ''sp 0.0000,0.0000,0.0000 1.00 128,128,128'',
        ''sp 1.0000,0.0000,0.0000 1.00 128,128,128'',
        ''cy 0.5000,0.0000,0.0000 1.0000,0.0000,0.0000 0.40 1.00 200,200,200''])"
proof -
  let ?atoms = "[(''C'', (0, 0, 0)), (''C'', (1, 0, 0))] :: atom list"
  have n: "length ?atoms = 2" by simp
  from scene_order [of fixed_point ?atoms] obtain content where
    all: "map_content fixed_point ?atoms = Inr content
     \<and> generate_map_content fixed_point ?atoms = Inr (join_lines content)
     \<and> take 3 content = preamble
     \<and> take (length ?atoms) (drop 3 content) = map (sphere_line fixed_point) ?atoms
     \<and> drop (3 + length ?atoms) content =
         map (cylinder_line fixed_point ?atoms) (filter (bonded ?atoms) (index_pairs (length ?atoms)))
     \<and> index_pairs (length ?atoms) =
         concat (map (\<lambda>i. map (Pair i) [i + 1 ..< length ?atoms]) [0 ..< length ?atoms])
     \<and> sorted_wrt pair_before (filter (bonded ?atoms) (index_pairs (length ?atoms)))
     \<and> list_all is_sphere (take (length ?atoms) (drop 3 content))
     \<and> list_all is_cylinder (drop (3 + length ?atoms) content)" ..
  from all have g: "generate_map_content fixed_point ?atoms = Inr (join_lines content)"
    by (elim conjE)
  from all have t: "take 3 content = preamble"
    by (elim conjE)
  from all have s0: "take (length ?atoms) (drop 3 content) = map (sphere_line fixed_point) ?atoms"
    by (elim conjE)
  from all have c0: "drop (3 + length ?atoms) content =
         map (cylinder_line fixed_point ?atoms) (filter (bonded ?atoms) (index_pairs (length ?atoms)))"
    by (elim conjE)
  from s0 have s: "take 2 (drop 3 content) = map (sphere_line fixed_point) ?atoms"
    by (simp only: n)
  from c0 have c: "drop (3 + 2) content =
         map (cylinder_line fixed_point ?atoms) (filter (bonded ?atoms) (index_pairs 2))"
    by (simp only: n)
  have t': "take 3 content =
      [''A 0.2 255,255,255'', ''C -50.0,0.0,20.0 0.0,0.0,1.0 70'', ''L -40.0,50.0,0.0 0.6 10,0,255'']"
    by (simp only: t preamble_def)
  have s': "take 2 (drop 3 content) =
      [''sp 0.0000,0.0000,0.0000 1.00 128,128,128'', ''sp 1.0000,0.0000,0.0000 1.00 128,128,128'']"
    unfolding s by (simp add: sphere_line_def sphere_color_def fixed_point_0 fixed_point_1 str_nat_128)
  have c': "drop (3 + 2) content =
      [''cy 0.5000,0.0000,0.0000 1.0000,0.0000,0.0000 0.40 1.00 200,200,200'']"
    unfolding c index_pairs_2
    by (simp add: calculate_distance_def determine_bond_threshold_def
          fixed_point_0 fixed_point_1 fixed_point_half fixed_point_radius str_nat_200)
  have "content =
       [''A 0.2 255,255,255'',
        ''C -50.0,0.0,20.0 0.0,0.0,1.0 70'',
        ''L -40.0,50.0,0.0 0.6 10,0,255'',
        ''sp 0.0000,0.0000,0.0000 1.00 128,128,128'',
        ''sp 1.0000,0.0000,0.0000 1.00 128,128,128'',
        ''cy 0.5000,0.0000,0.0000 1.0000,0.0000,0.0000 0.40 1.00 200,200,200'']"
    using split_scene [of content 2] unfolding t' s' c' by (simp only: append.simps)
  with g show ?thesis by (simp only:)
qed

end
